theory Spec2Isabelle
  imports Main "HOL-Library.Word"
begin

section \<open>Values, errors and handles\<close>

text \<open>
  The repository is a thin layer over Go's \<^verbatim>\<open>database/sql\<close>. The source files hold several
  revisions one after the other; the model follows the current one (type \<^verbatim>\<open>Assister\<close>, the
  \<^verbatim>\<open>utils\<close> package and the \<^verbatim>\<open>Ephmrl...\<close> functions that call it), and the older
  \<^verbatim>\<open>AssisterConfig.UpdateSingleRow\<close> with its private \<^verbatim>\<open>getRowsAffected\<close>.

  Go's \<^verbatim>\<open>any\<close> is a tagged union of dynamic values. A slice \<^verbatim>\<open>[]any\<close> is itself a value
  of type \<^verbatim>\<open>any\<close>, which matters where the source passes \<^verbatim>\<open>args\<close> instead of
  \<^verbatim>\<open>args...\<close> to a variadic function: the callee then receives one argument, the slice.
\<close>

type_synonym int64 = "64 word"

datatype any =
    Nil_any
  | Int_any int
  | String_any string
  | Slice_any "any list"
  | Struct_any "(string \<times> any) list"

text \<open>
  An \<^verbatim>\<open>error\<close> is either made by this library with \<^verbatim>\<open>errors.New\<close> or handed over by the
  driver; \<^verbatim>\<open>nil\<close> is \<open>None\<close> of \<open>error option\<close>.
\<close>

datatype error = errors_New string | driver_error string

fun Error :: "error \<Rightarrow> string" where
  "Error (errors_New s) = s"
| "Error (driver_error s) = s"

section \<open>Package utils: validation helpers\<close>

text \<open>
  \<^verbatim>\<open>func QueryCheckerWithArgs(query string, args ...any) error\<close>: a \<^verbatim>\<open>switch\<close> with
  three cases and a default, in the source's order. \<^verbatim>\<open>len(query)\<close> counts bytes, as
  \<open>length\<close> does on a \<open>string\<close>. (The other revision of the file differs only in the
  wording of the two messages about the query.)
\<close>

definition QueryCheckerWithArgs :: "string \<Rightarrow> any list \<Rightarrow> error option" where
  "QueryCheckerWithArgs query args =
     (if length query = 0 \<and> length args = 0 then
        Some (errors_New ''both query / statement & args are not present'')
      else if length query = 0 \<and> length args > 0 then
        Some (errors_New ''no query / statement present'')
      else if length query > 0 \<and> length args = 0 then
        Some (errors_New ''no args present'')
      else None)"

definition QueryChecker :: "string \<Rightarrow> error option" where
  "QueryChecker query =
     (if length query = 0 then Some (errors_New ''no query / statement present'')
      else None)"

section \<open>database/sql as seen by the library\<close>

text \<open>
  \<^verbatim>\<open>*sql.DB\<close>, \<^verbatim>\<open>*sql.Stmt\<close>, \<^verbatim>\<open>*sql.Row\<close> and \<^verbatim>\<open>*sql.Rows\<close> are pointers to
  objects of the standard library; a \<^verbatim>\<open>nil\<close> pointer is \<open>None\<close> of the option type.
  The handle given to the library is a live one, so \<^verbatim>\<open>ac.DB\<close> and \<^verbatim>\<open>db\<close> are never
  \<^verbatim>\<open>nil\<close>. A \<^verbatim>\<open>sql.Result\<close> answers \<^verbatim>\<open>RowsAffected()\<close> with a count or with the
  driver's error.
\<close>

datatype sql_DB = DB_ptr nat
datatype sql_Stmt = Stmt_ptr nat
datatype sql_Row = Row_ptr nat
datatype sql_Rows = Rows_ptr nat
datatype sql_Result = Result (RowsAffected: "string + int64")

text \<open>
  The driver is a parameter: each entry takes the database state \<open>'s\<close> and returns its
  answer (\<open>Inl\<close> the driver's error message) and the new state.
\<close>

record 's driver =
  Prepare :: "sql_DB \<Rightarrow> string \<Rightarrow> 's \<Rightarrow> (string + sql_Stmt) \<times> 's"
  Stmt_Exec :: "sql_Stmt \<Rightarrow> any list \<Rightarrow> 's \<Rightarrow> (string + sql_Result) \<times> 's"
  Exec :: "sql_DB \<Rightarrow> string \<Rightarrow> any list \<Rightarrow> 's \<Rightarrow> (string + sql_Result) \<times> 's"
  QueryRow :: "sql_DB \<Rightarrow> string \<Rightarrow> any list \<Rightarrow> 's \<Rightarrow> sql_Row \<times> 's"
  Query :: "sql_DB \<Rightarrow> string \<Rightarrow> any list \<Rightarrow> 's \<Rightarrow> (string + sql_Rows) \<times> 's"
  Row_Scan :: "sql_Row \<Rightarrow> 's \<Rightarrow> (string + any) \<times> 's"

text \<open>Every call that reaches \<^verbatim>\<open>database/sql\<close> is recorded, in order.\<close>

datatype call =
    Call_Prepare sql_DB string
  | Call_Stmt_Exec sql_Stmt "any list"
  | Call_Exec sql_DB string "any list"
  | Call_QueryRow sql_DB string "any list"
  | Call_Query sql_DB string "any list"
  | Call_Row_Scan sql_Row
  | Call_Close sql_DB

text \<open>\<^verbatim>\<open>type Assister struct { DB *sql.DB }\<close>\<close>

record Assister =
  DB :: sql_DB

text \<open>
  The world: the executors allocated by \<^verbatim>\<open>New\<close> (a heap of \<^verbatim>\<open>Assister\<close> objects, by
  address), the database state, the calls made to \<^verbatim>\<open>database/sql\<close> and the lines written
  with package \<^verbatim>\<open>log\<close> (the message only, without the time stamp).
\<close>

record 's world =
  assisters :: "nat \<Rightarrow> Assister option"
  next_addr :: nat
  dbstate :: 's
  calls :: "call list"
  logged :: "string list"

definition log_Print :: "string \<Rightarrow> 's world \<Rightarrow> 's world" where
  "log_Print msg w = w\<lparr>logged := logged w @ [msg]\<rparr>"

definition DB_Prepare ::
  "'s driver \<Rightarrow> sql_DB \<Rightarrow> string \<Rightarrow> 's world \<Rightarrow> (string + sql_Stmt) \<times> 's world" where
  "DB_Prepare drv db query w =
     (case Prepare drv db query (dbstate w) of
        (r, s') \<Rightarrow> (r, w\<lparr>dbstate := s', calls := calls w @ [Call_Prepare db query]\<rparr>))"

definition Stmt_Exec_call ::
  "'s driver \<Rightarrow> sql_Stmt \<Rightarrow> any list \<Rightarrow> 's world \<Rightarrow> (string + sql_Result) \<times> 's world" where
  "Stmt_Exec_call drv stmt args w =
     (case Stmt_Exec drv stmt args (dbstate w) of
        (r, s') \<Rightarrow> (r, w\<lparr>dbstate := s', calls := calls w @ [Call_Stmt_Exec stmt args]\<rparr>))"

definition DB_Exec ::
  "'s driver \<Rightarrow> sql_DB \<Rightarrow> string \<Rightarrow> any list \<Rightarrow> 's world
     \<Rightarrow> (string + sql_Result) \<times> 's world" where
  "DB_Exec drv db query args w =
     (case Exec drv db query args (dbstate w) of
        (r, s') \<Rightarrow> (r, w\<lparr>dbstate := s', calls := calls w @ [Call_Exec db query args]\<rparr>))"

definition DB_QueryRow ::
  "'s driver \<Rightarrow> sql_DB \<Rightarrow> string \<Rightarrow> any list \<Rightarrow> 's world \<Rightarrow> sql_Row \<times> 's world" where
  "DB_QueryRow drv db query args w =
     (case QueryRow drv db query args (dbstate w) of
        (r, s') \<Rightarrow> (r, w\<lparr>dbstate := s', calls := calls w @ [Call_QueryRow db query args]\<rparr>))"

definition DB_Query ::
  "'s driver \<Rightarrow> sql_DB \<Rightarrow> string \<Rightarrow> any list \<Rightarrow> 's world
     \<Rightarrow> (string + sql_Rows) \<times> 's world" where
  "DB_Query drv db query args w =
     (case Query drv db query args (dbstate w) of
        (r, s') \<Rightarrow> (r, w\<lparr>dbstate := s', calls := calls w @ [Call_Query db query args]\<rparr>))"

section \<open>Package utils: the rows-affected check\<close>

text \<open>\<^verbatim>\<open>%v\<close> of an \<^verbatim>\<open>int64\<close>: the signed decimal numeral.\<close>

fun decimal :: "nat \<Rightarrow> string" where
  "decimal n =
     (if n < 10 then [''0123456789'' ! n]
      else decimal (n div 10) @ [''0123456789'' ! (n mod 10)])"

declare decimal.simps [simp del]

definition fmt_v :: "int64 \<Rightarrow> string" where
  "fmt_v x = (if sint x < 0 then ''-'' @ decimal (nat (- sint x)) else decimal (nat (sint x)))"

definition mismatch_text :: string where
  "mismatch_text =
     ''number of rows affected does not match the expected number of rows affected: ''"

text \<open>
  \<^verbatim>\<open>func GetRowsAffected(results sql.Result, targetNumRowsAffected int64) error\<close>.
  Its callers pass the result of an \<^verbatim>\<open>Exec\<close> that returned no error.
\<close>

definition GetRowsAffected :: "sql_Result \<Rightarrow> int64 \<Rightarrow> 's world \<Rightarrow> error option \<times> 's world" where
  "GetRowsAffected results targetNumRowsAffected w =
     (case RowsAffected results of
        Inl err \<Rightarrow> (Some (driver_error err), w)
      | Inr rowsAffected \<Rightarrow>
          if rowsAffected \<noteq> targetNumRowsAffected then
            (let sqlErr = errors_New (mismatch_text @ fmt_v rowsAffected @ '' / ''
                                        @ fmt_v targetNumRowsAffected)
             in (Some sqlErr, log_Print (''ERROR: '' @ Error sqlErr) w))
          else
            (None, log_Print (''Rows affected: '' @ fmt_v rowsAffected @ '' / ''
                                @ fmt_v targetNumRowsAffected) w))"

section \<open>The connection-bound executor\<close>

text \<open>
  \<^verbatim>\<open>func New(db *sql.DB) *Assister\<close> allocates an \<^verbatim>\<open>Assister\<close> and returns its address.
\<close>

definition New :: "sql_DB \<Rightarrow> 's world \<Rightarrow> nat \<times> 's world" where
  "New db w =
     (let config = next_addr w
      in (config, w\<lparr>assisters := (assisters w)(config \<mapsto> \<lparr>DB = db\<rparr>),
                    next_addr := Suc (next_addr w)\<rparr>))"

text \<open>
  The methods below have value receivers (\<^verbatim>\<open>func (ac Assister) ...\<close>): they work on a copy
  \<open>ac\<close> of the executor.

  \<^verbatim>\<open>UpdateSingleRow\<close> prepares, executes, and checks the count; it calls no validation helper.
\<close>

definition UpdateSingleRow ::
  "'s driver \<Rightarrow> Assister \<Rightarrow> string \<Rightarrow> any list \<Rightarrow> 's world \<Rightarrow> error option \<times> 's world" where
  "UpdateSingleRow drv ac query args w =
     (case DB_Prepare drv (DB ac) query w of
        (Inl err, w1) \<Rightarrow> (Some (driver_error err), w1)
      | (Inr stmt, w1) \<Rightarrow>
          (case Stmt_Exec_call drv stmt args w1 of
             (Inl err, w2) \<Rightarrow> (Some (driver_error err), w2)
           | (Inr results, w2) \<Rightarrow>
               (case GetRowsAffected results 1 w2 of
                  (Some err, w3) \<Rightarrow> (Some err, w3)
                | (None, w3) \<Rightarrow> (None, w3))))"

definition SingleRowScanner ::
  "'s driver \<Rightarrow> Assister \<Rightarrow> string \<Rightarrow> 's world
     \<Rightarrow> (sql_Row option \<times> error option) \<times> 's world" where
  "SingleRowScanner drv ac query w =
     (case QueryChecker query of
        Some err \<Rightarrow> ((None, Some err), w)
      | None \<Rightarrow>
          (case DB_QueryRow drv (DB ac) query [] w of
             (row, w1) \<Rightarrow> ((Some row, None), w1)))"

text \<open>
  \<^verbatim>\<open>utils.QueryCheckerWithArgs(query, args)\<close>: the slice \<^verbatim>\<open>args\<close> is passed as one value, not
  spread with \<^verbatim>\<open>args...\<close>, so the helper receives the one-element list \<open>[Slice_any args]\<close>.
\<close>

definition SingleRowScannerWithArgs ::
  "'s driver \<Rightarrow> Assister \<Rightarrow> string \<Rightarrow> any list \<Rightarrow> 's world
     \<Rightarrow> (sql_Row option \<times> error option) \<times> 's world" where
  "SingleRowScannerWithArgs drv ac query args w =
     (case QueryCheckerWithArgs query [Slice_any args] of
        Some err \<Rightarrow> ((None, Some err), w)
      | None \<Rightarrow>
          (case DB_QueryRow drv (DB ac) query args w of
             (row, w1) \<Rightarrow> ((Some row, None), w1)))"

text \<open>\<^verbatim>\<open>MultipleRowScanner\<close> calls \<^verbatim>\<open>utils.QueryCheckerWithArgs(query)\<close>, with no argument.\<close>

definition MultipleRowScanner ::
  "'s driver \<Rightarrow> Assister \<Rightarrow> string \<Rightarrow> 's world
     \<Rightarrow> (sql_Rows option \<times> error option) \<times> 's world" where
  "MultipleRowScanner drv ac query w =
     (case QueryCheckerWithArgs query [] of
        Some err \<Rightarrow> ((None, Some err), w)
      | None \<Rightarrow>
          (case DB_Query drv (DB ac) query [] w of
             (Inl err, w1) \<Rightarrow> ((None, Some (driver_error err)), w1)
           | (Inr rows, w1) \<Rightarrow> ((Some rows, None), w1)))"

definition MultipleRowScannerWithArgs ::
  "'s driver \<Rightarrow> Assister \<Rightarrow> string \<Rightarrow> any list \<Rightarrow> 's world
     \<Rightarrow> (sql_Rows option \<times> error option) \<times> 's world" where
  "MultipleRowScannerWithArgs drv ac query args w =
     (case QueryCheckerWithArgs query [Slice_any args] of
        Some err \<Rightarrow> ((None, Some err), w)
      | None \<Rightarrow>
          (case DB_Query drv (DB ac) query args w of
             (Inl err, w1) \<Rightarrow> ((None, Some (driver_error err)), w1)
           | (Inr rows, w1) \<Rightarrow> ((Some rows, None), w1)))"

section \<open>The ephemeral executor\<close>

text \<open>
  \<^verbatim>\<open>EphmrlUpdateSingleRow\<close> validates, executes with \<^verbatim>\<open>db.Exec\<close> and returns a pointer to
  the result.
\<close>

definition EphmrlUpdateSingleRow ::
  "'s driver \<Rightarrow> sql_DB \<Rightarrow> string \<Rightarrow> any list \<Rightarrow> 's world
     \<Rightarrow> (sql_Result option \<times> error option) \<times> 's world" where
  "EphmrlUpdateSingleRow drv db statement args w =
     (case QueryCheckerWithArgs statement [Slice_any args] of
        Some err \<Rightarrow> ((None, Some err), w)
      | None \<Rightarrow>
          (case DB_Exec drv db statement args w of
             (Inl err, w1) \<Rightarrow> ((None, Some (driver_error err)), w1)
           | (Inr results, w1) \<Rightarrow>
               (case GetRowsAffected results 1 w1 of
                  (Some err, w2) \<Rightarrow> ((None, Some err), w2)
                | (None, w2) \<Rightarrow> ((Some results, None), w2))))"

definition EphmrlSingleRowScannerWithArgs ::
  "'s driver \<Rightarrow> sql_DB \<Rightarrow> string \<Rightarrow> any list \<Rightarrow> 's world
     \<Rightarrow> (sql_Row option \<times> error option) \<times> 's world" where
  "EphmrlSingleRowScannerWithArgs drv db query args w =
     (case QueryCheckerWithArgs query [Slice_any args] of
        Some err \<Rightarrow> ((None, Some err), w)
      | None \<Rightarrow>
          (case DB_QueryRow drv db query args w of
             (row, w1) \<Rightarrow> ((Some row, None), w1)))"

definition EphmrlSingleRowScanner ::
  "'s driver \<Rightarrow> sql_DB \<Rightarrow> string \<Rightarrow> 's world
     \<Rightarrow> (sql_Row option \<times> error option) \<times> 's world" where
  "EphmrlSingleRowScanner drv db query w =
     (case QueryChecker query of
        Some err \<Rightarrow> ((None, Some err), w)
      | None \<Rightarrow>
          (case DB_QueryRow drv db query [] w of
             (row, w1) \<Rightarrow> ((Some row, None), w1)))"

definition EphmrlMultipleRowScanner ::
  "'s driver \<Rightarrow> sql_DB \<Rightarrow> string \<Rightarrow> 's world
     \<Rightarrow> (sql_Rows option \<times> error option) \<times> 's world" where
  "EphmrlMultipleRowScanner drv db query w =
     (case QueryChecker query of
        Some err \<Rightarrow> ((None, Some err), w)
      | None \<Rightarrow>
          (case DB_Query drv db query [] w of
             (Inl err, w1) \<Rightarrow> ((None, Some (driver_error err)), w1)
           | (Inr rows, w1) \<Rightarrow> ((Some rows, None), w1)))"

text \<open>
  \<^verbatim>\<open>EphmrlMultipleRowScannerWithArgs\<close> passes \<^verbatim>\<open>args\<close> unspread to the helper and to
  \<^verbatim>\<open>db.Query(query, args)\<close> as well.
\<close>

definition EphmrlMultipleRowScannerWithArgs ::
  "'s driver \<Rightarrow> sql_DB \<Rightarrow> string \<Rightarrow> any list \<Rightarrow> 's world
     \<Rightarrow> (sql_Rows option \<times> error option) \<times> 's world" where
  "EphmrlMultipleRowScannerWithArgs drv db query args w =
     (case QueryCheckerWithArgs query [Slice_any args] of
        Some err \<Rightarrow> ((None, Some err), w)
      | None \<Rightarrow>
          (case DB_Query drv db query [Slice_any args] w of
             (Inl err, w1) \<Rightarrow> ((None, Some (driver_error err)), w1)
           | (Inr rows, w1) \<Rightarrow> ((Some rows, None), w1)))"

section \<open>Panics, reflection and the struct scanner\<close>

text \<open>
  A Go call either returns or panics. Calling a method through a \<^verbatim>\<open>nil\<close> pointer or a
  \<^verbatim>\<open>nil\<close> interface that reads the receiver is the run-time panic below.
\<close>

datatype 'a outcome = Returns 'a | Panics string

definition nil_dereference :: string where
  "nil_dereference = ''runtime error: invalid memory address or nil pointer dereference''"

text \<open>
  \<^verbatim>\<open>func (r *Row) Scan(dest ...any) error\<close> reads \<^verbatim>\<open>r.err\<close> first, so a \<^verbatim>\<open>nil\<close> row
  panics. \<^verbatim>\<open>row.Scan(&z)\<close> gives the error and the value left in \<^verbatim>\<open>z\<close>.
\<close>

definition Row_Scan_call ::
  "'s driver \<Rightarrow> sql_Row option \<Rightarrow> 's world \<Rightarrow> (error option \<times> any) outcome \<times> 's world" where
  "Row_Scan_call drv row w =
     (case row of
        None \<Rightarrow> (Panics nil_dereference, w)
      | Some r \<Rightarrow>
          (case Row_Scan drv r (dbstate w) of
             (Inl err, s') \<Rightarrow>
               (Returns (Some (driver_error err), Nil_any),
                w\<lparr>dbstate := s', calls := calls w @ [Call_Row_Scan r]\<rparr>)
           | (Inr z, s') \<Rightarrow>
               (Returns (None, z), w\<lparr>dbstate := s', calls := calls w @ [Call_Row_Scan r]\<rparr>)))"

text \<open>
  \<^verbatim>\<open>reflect.ValueOf(arg).NumField()\<close> panics unless \<^verbatim>\<open>arg\<close> is a struct.
  \<^verbatim>\<open>vals.Field(i).Set(v)\<close> panics, since a \<^verbatim>\<open>reflect.Value\<close> made from a struct passed by
  value is not addressable.
\<close>

definition NumField :: "any \<Rightarrow> nat outcome" where
  "NumField vals =
     (case vals of
        Struct_any fs \<Rightarrow> Returns (length fs)
      | _ \<Rightarrow> Panics ''reflect: call of reflect.Value.NumField on non-struct Value'')"

definition Field_Set :: "any \<Rightarrow> nat \<Rightarrow> any \<Rightarrow> any outcome" where
  "Field_Set vals i v = Panics ''reflect: reflect.Value.Set using unaddressable value''"

text \<open>
  \<^verbatim>\<open>func (ac *Assister) ScanStruct(arg any) (any, error)\<close> has a pointer receiver: \<open>ac\<close>
  is the address of the executor. The loop over the fields is \<open>ScanStruct_loop\<close>.
\<close>

function ScanStruct_loop ::
  "'s driver \<Rightarrow> nat \<Rightarrow> any \<Rightarrow> nat \<Rightarrow> nat \<Rightarrow> 's world
     \<Rightarrow> (any option \<times> error option) outcome \<times> 's world" where
  "ScanStruct_loop drv ac vals numOfFields i w =
     (if i < numOfFields then
        (case assisters w ac of
           None \<Rightarrow> (Panics nil_dereference, w)
         | Some a \<Rightarrow>
             (case SingleRowScannerWithArgs drv a [] [] w of
                ((row, err), w1) \<Rightarrow>
                  (case Row_Scan_call drv row
                          (case err of Some e \<Rightarrow> log_Print (Error e) w1 | None \<Rightarrow> w1) of
                     (Panics p, w3) \<Rightarrow> (Panics p, w3)
                   | (Returns (Some e, z), w3) \<Rightarrow> (Returns (None, Some e), w3)
                   | (Returns (None, z), w3) \<Rightarrow>
                       (case Field_Set vals i z of
                          Panics p \<Rightarrow> (Panics p, w3)
                        | Returns vals' \<Rightarrow>
                            ScanStruct_loop drv ac vals' numOfFields (Suc i) w3))))
      else (Returns (Some vals, None), w))"
  by pat_completeness auto
termination
  by (relation "measure (\<lambda>(drv, ac, vals, numOfFields, i, w). numOfFields - i)") auto

declare ScanStruct_loop.simps [simp del]

definition ScanStruct ::
  "'s driver \<Rightarrow> nat \<Rightarrow> any \<Rightarrow> 's world \<Rightarrow> (any option \<times> error option) outcome \<times> 's world" where
  "ScanStruct drv ac arg w =
     (case NumField arg of
        Panics p \<Rightarrow> (Panics p, w)
      | Returns _ \<Rightarrow>
          (case NumField arg of
             Panics p \<Rightarrow> (Panics p, w)
           | Returns numOfFields \<Rightarrow> ScanStruct_loop drv ac arg numOfFields 0 w))"

section \<open>The earlier executor: AssisterConfig\<close>

text \<open>
  \<^verbatim>\<open>type AssisterConfig struct { DB *sql.DB }\<close> is the earlier name of the same struct.
  Its private \<^verbatim>\<open>getRowsAffected\<close> is called with whatever \<^verbatim>\<open>stmt.Exec\<close> returned, so
  \<^verbatim>\<open>results\<close> may be the \<^verbatim>\<open>nil\<close> interface, and \<^verbatim>\<open>results.RowsAffected()\<close> panics on it.
\<close>

type_synonym AssisterConfig = Assister

definition getRowsAffected ::
  "sql_Result option \<Rightarrow> int64 \<Rightarrow> 's world \<Rightarrow> error option outcome \<times> 's world" where
  "getRowsAffected results targetNumRowsAffected w =
     (case results of
        None \<Rightarrow> (Panics nil_dereference, w)
      | Some res \<Rightarrow>
          (case RowsAffected res of
             Inl err \<Rightarrow> (Returns (Some (driver_error err)), w)
           | Inr rowsAffected \<Rightarrow>
               if rowsAffected \<noteq> targetNumRowsAffected then
                 (let sqlErr = errors_New (mismatch_text @ fmt_v rowsAffected @ '' / ''
                                             @ fmt_v targetNumRowsAffected)
                  in (Returns (Some sqlErr), log_Print (''ERROR: '' @ Error sqlErr) w))
               else
                 (Returns None, log_Print (''Rows affected: '' @ fmt_v rowsAffected @ '' / ''
                                             @ fmt_v targetNumRowsAffected) w)))"

text \<open>
  \<^verbatim>\<open>results, err := stmt.Exec(params...)\<close> is followed at once by
  \<^verbatim>\<open>err = getRowsAffected(results, 1)\<close>: the error of \<^verbatim>\<open>Exec\<close> is overwritten unread.
  On failure \<^verbatim>\<open>Exec\<close> returns the \<^verbatim>\<open>nil\<close> result with its error.
\<close>

definition AssisterConfig_UpdateSingleRow ::
  "'s driver \<Rightarrow> AssisterConfig \<Rightarrow> string \<Rightarrow> any list \<Rightarrow> 's world
     \<Rightarrow> error option outcome \<times> 's world" where
  "AssisterConfig_UpdateSingleRow drv ac statement params w =
     (case DB_Prepare drv (DB ac) statement (log_Print (''Query: '' @ statement) w) of
        (Inl err, w1) \<Rightarrow>
          (Returns (Some (driver_error err)), log_Print (''ERROR: '' @ err) w1)
      | (Inr stmt, w1) \<Rightarrow>
          (case Stmt_Exec_call drv stmt params w1 of
             (r, w2) \<Rightarrow>
               (case getRowsAffected (case r of Inl err \<Rightarrow> None | Inr res \<Rightarrow> Some res) 1 w2 of
                  (Panics p, w3) \<Rightarrow> (Panics p, w3)
                | (Returns (Some err), w3) \<Rightarrow>
                    (Returns (Some err), log_Print (''ERROR: '' @ Error err) w3)
                | (Returns None, w3) \<Rightarrow> (Returns None, w3))))"

section \<open>The validation errors; a driver and a world for concrete runs\<close>

text \<open>The three errors that \<^verbatim>\<open>QueryCheckerWithArgs\<close> and \<^verbatim>\<open>QueryChecker\<close> construct.\<close>

definition validation_errors :: "error set" where
  "validation_errors =
     {errors_New ''both query / statement & args are not present'',
      errors_New ''no query / statement present'',
      errors_New ''no args present''}"

text \<open>
  A small driver to run the operations on: every call succeeds and counts one step in the
  database state; \<^verbatim>\<open>Exec\<close> (on the handle or on a statement) gives the chosen answer.
\<close>

definition stub_driver :: "string + sql_Result \<Rightarrow> nat driver" where
  "stub_driver answer =
     \<lparr>Prepare = (\<lambda>db q s. (Inr (Stmt_ptr 0), Suc s)),
      Stmt_Exec = (\<lambda>stmt a s. (answer, Suc s)),
      Exec = (\<lambda>db q a s. (answer, Suc s)),
      QueryRow = (\<lambda>db q a s. (Row_ptr 0, Suc s)),
      Query = (\<lambda>db q a s. (Inr (Rows_ptr 0), Suc s)),
      Row_Scan = (\<lambda>r s. (Inr Nil_any, Suc s))\<rparr>"

definition affects :: "int64 \<Rightarrow> string + sql_Result" where
  "affects n = Inr (Result (Inr n))"

definition world0 :: "nat world" where
  "world0 = \<lparr>assisters = Map.empty, next_addr = 0, dbstate = 0, calls = [], logged = []\<rparr>"

section \<open>Auxiliary facts\<close>

lemmas stub_defs = stub_driver_def affects_def world0_def
lemmas call_defs = DB_Prepare_def Stmt_Exec_call_def DB_Exec_def DB_QueryRow_def DB_Query_def
lemmas bound_defs = UpdateSingleRow_def SingleRowScanner_def SingleRowScannerWithArgs_def
  MultipleRowScanner_def MultipleRowScannerWithArgs_def
lemmas ephmrl_defs = EphmrlUpdateSingleRow_def EphmrlSingleRowScanner_def
  EphmrlSingleRowScannerWithArgs_def EphmrlMultipleRowScanner_def
  EphmrlMultipleRowScannerWithArgs_def

subsection \<open>The decimal rendering determines the number\<close>

lemma digit_inj:
  assumes "i < 10" "j < 10" "''0123456789'' ! i = ''0123456789'' ! j"
  shows "i = j"
proof -
  have d: "distinct ''0123456789''" by simp
  have "i < length ''0123456789''" "j < length ''0123456789''" using assms by simp_all
  with d assms(3) show ?thesis by (simp only: nth_eq_iff_index_eq)
qed

lemma digit_in: "i < 10 \<Longrightarrow> ''0123456789'' ! i \<in> set ''0123456789''"
  by (rule nth_mem) simp

lemma decimal_small: "n < 10 \<Longrightarrow> decimal n = [''0123456789'' ! n]"
  by (subst decimal.simps) simp

lemma decimal_big:
  "\<not> n < 10 \<Longrightarrow> decimal n = decimal (n div 10) @ [''0123456789'' ! (n mod 10)]"
  by (subst decimal.simps) simp

lemma decimal_nonempty: "decimal n \<noteq> []"
  by (subst decimal.simps) simp

lemma decimal_digits: "set (decimal n) \<subseteq> set ''0123456789''"
proof (induction n rule: decimal.induct)
  case (1 n)
  show ?case
  proof (cases "n < 10")
    case True
    then show ?thesis using digit_in [of n] by (subst decimal.simps) simp
  next
    case False
    have "n mod 10 < 10" by simp
    from digit_in [OF this] 1 [OF False] False show ?thesis
      by (subst decimal.simps) simp
  qed
qed

lemma decimal_length_one: "(length (decimal n) = 1) = (n < 10)"
proof (cases "n < 10")
  case True
  then show ?thesis by (simp add: decimal_small)
next
  case False
  have "length (decimal (n div 10)) \<noteq> 0" using decimal_nonempty by simp
  with False show ?thesis by (simp add: decimal_big)
qed

lemma decimal_inj: "decimal a = decimal b \<Longrightarrow> a = b"
proof (induction a arbitrary: b rule: decimal.induct)
  case (1 a)
  from "1.prems" have len: "(a < 10) = (b < 10)"
    using decimal_length_one [of a] decimal_length_one [of b] by simp
  show ?case
  proof (cases "a < 10")
    case True
    with len have b: "b < 10" by simp
    from "1.prems" True b have "''0123456789'' ! a = ''0123456789'' ! b"
      by (simp add: decimal_small)
    with True b show ?thesis by (rule digit_inj)
  next
    case False
    with len have b: "\<not> b < 10" by simp
    from "1.prems" decimal_big [OF False] decimal_big [OF b]
    have eq: "decimal (a div 10) @ [''0123456789'' ! (a mod 10)]
            = decimal (b div 10) @ [''0123456789'' ! (b mod 10)]"
      by simp
    then have "decimal (a div 10) = decimal (b div 10)"
      and m: "''0123456789'' ! (a mod 10) = ''0123456789'' ! (b mod 10)" by simp_all
    with "1.IH" [OF False] have d: "a div 10 = b div 10" by simp
    have "a mod 10 = b mod 10" using digit_inj [OF _ _ m] by simp
    with d show ?thesis by (metis div_mult_mod_eq)
  qed
qed

lemma decimal_no_minus: "hd (decimal n) \<noteq> CHR ''-''"
proof -
  have "hd (decimal n) \<in> set (decimal n)" using decimal_nonempty by simp
  with decimal_digits [of n] show ?thesis by auto
qed

lemma fmt_v_inj: "(fmt_v x = fmt_v y) = (x = y)"
proof
  assume eq: "fmt_v x = fmt_v y"
  have "sint x = sint y"
  proof (cases "sint x < 0")
    case True
    show ?thesis
    proof (cases "sint y < 0")
      case y: True
      with True eq have "decimal (nat (- sint x)) = decimal (nat (- sint y))"
        by (simp add: fmt_v_def)
      from decimal_inj [OF this] True y show ?thesis by simp
    next
      case y: False
      with True eq have "CHR ''-'' # decimal (nat (- sint x)) = decimal (nat (sint y))"
        by (simp add: fmt_v_def)
      then have "hd (decimal (nat (sint y))) = CHR ''-''" by (metis list.sel(1))
      with decimal_no_minus show ?thesis by simp
    qed
  next
    case False
    show ?thesis
    proof (cases "sint y < 0")
      case y: True
      with False eq have "decimal (nat (sint x)) = CHR ''-'' # decimal (nat (- sint y))"
        by (simp add: fmt_v_def)
      then have "hd (decimal (nat (sint x))) = CHR ''-''" by (metis list.sel(1))
      with decimal_no_minus show ?thesis by simp
    next
      case y: False
      with False eq have "decimal (nat (sint x)) = decimal (nat (sint y))"
        by (simp add: fmt_v_def)
      from decimal_inj [OF this] False y show ?thesis by simp
    qed
  qed
  then show "x = y" by (rule signed_word_eqI)
next
  assume "x = y"
  then show "fmt_v x = fmt_v y" by simp
qed

lemma fmt_v_1: "fmt_v 1 = ''1''"
  by (simp add: fmt_v_def decimal.simps)

subsection \<open>The rows-affected check\<close>

lemma GetRowsAffected_fst:
  "RowsAffected results = Inr n \<Longrightarrow>
   fst (GetRowsAffected results t w) =
     (if n = t then None else Some (errors_New (mismatch_text @ fmt_v n @ '' / '' @ fmt_v t)))"
  by (simp add: GetRowsAffected_def Let_def)


lemma GetRowsAffected_not_validation:
  "fst (GetRowsAffected results 1 w) = Some err \<Longrightarrow> err \<notin> validation_errors"
  by (auto simp: GetRowsAffected_def Let_def validation_errors_def mismatch_text_def
        split: sum.splits if_splits)

lemma UpdateSingleRow_count:
  "Prepare drv (DB ac) query (dbstate w) = (Inr stmt, s1) \<Longrightarrow>
   Stmt_Exec drv stmt args s1 = (Inr results, s2) \<Longrightarrow>
   RowsAffected results = Inr n \<Longrightarrow>
   fst (UpdateSingleRow drv ac query args w) =
     (if n = 1 then None else Some (errors_New (mismatch_text @ fmt_v n @ '' / 1'')))"
  by (simp add: UpdateSingleRow_def DB_Prepare_def Stmt_Exec_call_def GetRowsAffected_def
        Let_def fmt_v_1)

lemma EphmrlUpdateSingleRow_count:
  "statement \<noteq> [] \<Longrightarrow>
   Exec drv db statement args (dbstate w) = (Inr results, s1) \<Longrightarrow>
   RowsAffected results = Inr n \<Longrightarrow>
   fst (EphmrlUpdateSingleRow drv db statement args w) =
     (if n = 1 then (Some results, None)
      else (None, Some (errors_New (mismatch_text @ fmt_v n @ '' / 1''))))"
  by (simp add: EphmrlUpdateSingleRow_def QueryCheckerWithArgs_def DB_Exec_def
        GetRowsAffected_def Let_def fmt_v_1)

subsection \<open>Validation in the operations\<close>

lemma unspread_args_pass: "query \<noteq> [] \<Longrightarrow> QueryCheckerWithArgs query [Slice_any args] = None"
  by (simp add: QueryCheckerWithArgs_def)

lemma empty_query_rejected:
  "SingleRowScanner drv ac [] w = ((None, Some (errors_New ''no query / statement present'')), w)"
  "SingleRowScannerWithArgs drv ac [] args w =
     ((None, Some (errors_New ''no query / statement present'')), w)"
  "MultipleRowScanner drv ac [] w =
     ((None, Some (errors_New ''both query / statement & args are not present'')), w)"
  "MultipleRowScannerWithArgs drv ac [] args w =
     ((None, Some (errors_New ''no query / statement present'')), w)"
  "EphmrlUpdateSingleRow drv db [] args w =
     ((None, Some (errors_New ''no query / statement present'')), w)"
  "EphmrlSingleRowScanner drv db [] w =
     ((None, Some (errors_New ''no query / statement present'')), w)"
  "EphmrlSingleRowScannerWithArgs drv db [] args w =
     ((None, Some (errors_New ''no query / statement present'')), w)"
  "EphmrlMultipleRowScanner drv db [] w =
     ((None, Some (errors_New ''no query / statement present'')), w)"
  "EphmrlMultipleRowScannerWithArgs drv db [] args w =
     ((None, Some (errors_New ''no query / statement present'')), w)"
  by (simp_all add: bound_defs ephmrl_defs QueryChecker_def QueryCheckerWithArgs_def)

lemma no_args_operations_proceed:
  "query \<noteq> [] \<Longrightarrow>
     calls (snd (SingleRowScanner drv ac query w)) = calls w @ [Call_QueryRow (DB ac) query []]
   \<and> calls (snd (EphmrlSingleRowScanner drv db query w)) = calls w @ [Call_QueryRow db query []]
   \<and> calls (snd (EphmrlMultipleRowScanner drv db query w)) = calls w @ [Call_Query db query []]"
  by (simp add: SingleRowScanner_def EphmrlSingleRowScanner_def EphmrlMultipleRowScanner_def
        QueryChecker_def call_defs split: prod.splits sum.splits)

lemma scan_validation_untouched:
  assumes "err \<in> validation_errors"
  shows "snd (fst (SingleRowScanner drv ac query w)) = Some err
           \<Longrightarrow> snd (SingleRowScanner drv ac query w) = w"
    and "snd (fst (SingleRowScannerWithArgs drv ac query args w)) = Some err
           \<Longrightarrow> snd (SingleRowScannerWithArgs drv ac query args w) = w"
    and "snd (fst (MultipleRowScanner drv ac query w)) = Some err
           \<Longrightarrow> snd (MultipleRowScanner drv ac query w) = w"
    and "snd (fst (MultipleRowScannerWithArgs drv ac query args w)) = Some err
           \<Longrightarrow> snd (MultipleRowScannerWithArgs drv ac query args w) = w"
    and "snd (fst (EphmrlSingleRowScanner drv db query w)) = Some err
           \<Longrightarrow> snd (EphmrlSingleRowScanner drv db query w) = w"
    and "snd (fst (EphmrlSingleRowScannerWithArgs drv db query args w)) = Some err
           \<Longrightarrow> snd (EphmrlSingleRowScannerWithArgs drv db query args w) = w"
    and "snd (fst (EphmrlMultipleRowScanner drv db query w)) = Some err
           \<Longrightarrow> snd (EphmrlMultipleRowScanner drv db query w) = w"
    and "snd (fst (EphmrlMultipleRowScannerWithArgs drv db query args w)) = Some err
           \<Longrightarrow> snd (EphmrlMultipleRowScannerWithArgs drv db query args w) = w"
  using assms
  by (auto simp: bound_defs ephmrl_defs call_defs validation_errors_def
        split: option.splits prod.splits sum.splits)

lemma EphmrlUpdate_validation_untouched:
  assumes "err \<in> validation_errors"
    and "snd (fst (EphmrlUpdateSingleRow drv db query args w)) = Some err"
  shows "snd (EphmrlUpdateSingleRow drv db query args w) = w"
proof (cases "QueryCheckerWithArgs query [Slice_any args]")
  case (Some e)
  then show ?thesis by (simp add: EphmrlUpdateSingleRow_def)
next
  case None
  obtain r w1 where ex: "DB_Exec drv db query args w = (r, w1)"
    by (cases "DB_Exec drv db query args w")
  show ?thesis
  proof (cases r)
    case (Inl e)
    with None ex assms show ?thesis
      by (auto simp: EphmrlUpdateSingleRow_def validation_errors_def)
  next
    case (Inr results)
    obtain g w2 where gr: "GetRowsAffected results 1 w1 = (g, w2)"
      by (cases "GetRowsAffected results 1 w1")
    with None ex Inr assms(2) have "g = Some err"
      by (simp add: EphmrlUpdateSingleRow_def split: option.splits)
    with gr have "err \<notin> validation_errors"
      using GetRowsAffected_not_validation [of results w1 err] by simp
    with assms(1) show ?thesis by simp
  qed
qed

lemma UpdateSingleRow_no_validation:
  assumes "err \<in> validation_errors"
  shows "fst (UpdateSingleRow drv ac query args w) \<noteq> Some err"
proof -
  obtain r w1 where pr: "DB_Prepare drv (DB ac) query w = (r, w1)"
    by (cases "DB_Prepare drv (DB ac) query w")
  show ?thesis
  proof (cases r)
    case (Inl e)
    with pr assms show ?thesis by (auto simp: UpdateSingleRow_def validation_errors_def)
  next
    case (Inr stmt)
    obtain r2 w2 where ex: "Stmt_Exec_call drv stmt args w1 = (r2, w2)"
      by (cases "Stmt_Exec_call drv stmt args w1")
    show ?thesis
    proof (cases r2)
      case (Inl e)
      with pr Inr ex assms show ?thesis by (auto simp: UpdateSingleRow_def validation_errors_def)
    next
      case r2: (Inr results)
      obtain g w3 where gr: "GetRowsAffected results 1 w2 = (g, w3)"
        by (cases "GetRowsAffected results 1 w2")
      have "g \<noteq> Some err"
        using GetRowsAffected_not_validation [of results w2 err] gr assms by auto
      with pr Inr ex r2 gr show ?thesis
        by (auto simp: UpdateSingleRow_def split: option.splits)
    qed
  qed
qed







subsection \<open>The executors on the heap and the call record\<close>

lemma bound_assisters_frame:
  "assisters (snd (UpdateSingleRow drv ac query args w)) = assisters w"
  "assisters (snd (SingleRowScanner drv ac query w)) = assisters w"
  "assisters (snd (SingleRowScannerWithArgs drv ac query args w)) = assisters w"
  "assisters (snd (MultipleRowScanner drv ac query w)) = assisters w"
  "assisters (snd (MultipleRowScannerWithArgs drv ac query args w)) = assisters w"
  by (simp_all add: bound_defs call_defs GetRowsAffected_def log_Print_def Let_def
        split: prod.splits sum.splits option.splits)

lemma bound_never_closes:
  "(Call_Close h \<in> set (calls (snd (UpdateSingleRow drv ac query args w))))
     = (Call_Close h \<in> set (calls w))"
  "(Call_Close h \<in> set (calls (snd (SingleRowScanner drv ac query w))))
     = (Call_Close h \<in> set (calls w))"
  "(Call_Close h \<in> set (calls (snd (SingleRowScannerWithArgs drv ac query args w))))
     = (Call_Close h \<in> set (calls w))"
  "(Call_Close h \<in> set (calls (snd (MultipleRowScanner drv ac query w))))
     = (Call_Close h \<in> set (calls w))"
  "(Call_Close h \<in> set (calls (snd (MultipleRowScannerWithArgs drv ac query args w))))
     = (Call_Close h \<in> set (calls w))"
  by (simp_all add: bound_defs call_defs GetRowsAffected_def log_Print_def Let_def
        split: prod.splits sum.splits option.splits)

subsection \<open>The struct scanner\<close>

lemma ScanStruct_loop_panics:
  assumes "assisters w ac = Some a" and "i < numOfFields"
  shows "ScanStruct_loop drv ac vals numOfFields i w =
           (Panics nil_dereference, log_Print ''no query / statement present'' w)"
  using assms
  by (subst ScanStruct_loop.simps)
     (simp add: SingleRowScannerWithArgs_def QueryCheckerWithArgs_def Row_Scan_call_def)

lemma ScanStruct_loop_frame:
  "assisters (snd (ScanStruct_loop drv ac vals numOfFields i w)) = assisters w
   \<and> calls (snd (ScanStruct_loop drv ac vals numOfFields i w)) = calls w"
proof (cases "i < numOfFields")
  case False
  then show ?thesis by (subst ScanStruct_loop.simps, subst ScanStruct_loop.simps) simp
next
  case True
  show ?thesis
  proof (cases "assisters w ac")
    case None
    with True show ?thesis by (subst ScanStruct_loop.simps, subst ScanStruct_loop.simps) simp
  next
    case (Some a)
    with True show ?thesis by (simp add: ScanStruct_loop_panics log_Print_def)
  qed
qed

lemma ScanStruct_frame:
  "assisters (snd (ScanStruct drv ac arg w)) = assisters w"
  "calls (snd (ScanStruct drv ac arg w)) = calls w"
  by (simp_all add: ScanStruct_def ScanStruct_loop_frame split: outcome.splits)

section \<open>The validation helper\<close>

text \<open>
  Claim C7. \<^verbatim>\<open>QueryCheckerWithArgs\<close> returns \<^verbatim>\<open>nil\<close> exactly when the query string and the
  argument list are both non-empty. With an empty query it returns an error that names the
  missing query (alone when arguments are present, together with the arguments when they are
  missing too); with a non-empty query and an empty argument list it returns the error
  that names the missing arguments.
\<close>

theorem QueryCheckerWithArgs_contract:
  "(QueryCheckerWithArgs query args = None) = (query \<noteq> [] \<and> args \<noteq> [])
   \<and> QueryCheckerWithArgs [] (a # as) = Some (errors_New ''no query / statement present'')
   \<and> QueryCheckerWithArgs [] [] =
       Some (errors_New ''both query / statement & args are not present'')
   \<and> QueryCheckerWithArgs (c # cs) [] = Some (errors_New ''no args present'')"
  by (simp add: QueryCheckerWithArgs_def)

section \<open>The rows-affected contract of update\<close>

text \<open>
  Claim C1. Whenever the driver reports an affected-row count \<open>n\<close> for an update, the
  connection-bound update (after a successful prepare and execute), the ephemeral update
  (on a non-empty statement, after a successful execute) and the helper
  \<^verbatim>\<open>GetRowsAffected\<close> itself return success exactly when \<open>n = 1\<close>. For every other
  count, zero or more than one, they return an error value whose message ends with the
  actual count and the expected count 1; the rendering of the count determines the count.
\<close>

theorem update_succeeds_iff_one_row:
  assumes "RowsAffected results = Inr n"
  shows "(Prepare drv (DB ac) query (dbstate w) = (Inr stmt, s1) \<longrightarrow>
          Stmt_Exec drv stmt args s1 = (Inr results, s2) \<longrightarrow>
          fst (UpdateSingleRow drv ac query args w) =
            (if n = 1 then None
             else Some (errors_New (mismatch_text @ fmt_v n @ '' / 1''))))
       \<and> (query \<noteq> [] \<longrightarrow>
          Exec drv db query args (dbstate w) = (Inr results, s3) \<longrightarrow>
          fst (EphmrlUpdateSingleRow drv db query args w) =
            (if n = 1 then (Some results, None)
             else (None, Some (errors_New (mismatch_text @ fmt_v n @ '' / 1'')))))
       \<and> fst (GetRowsAffected results 1 w) =
            (if n = 1 then None
             else Some (errors_New (mismatch_text @ fmt_v n @ '' / 1'')))
       \<and> (fmt_v n = fmt_v m) = (n = m)"
  using assms
  by (simp add: UpdateSingleRow_count EphmrlUpdateSingleRow_count GetRowsAffected_fst
        fmt_v_1 fmt_v_inj)

text \<open>
  An update that affects no row, in both layers, and one that affects exactly one row.
\<close>

theorem update_succeeds_iff_one_row_witness:
  "fst (UpdateSingleRow (stub_driver (affects 0)) \<lparr>DB = DB_ptr 7\<rparr>
          ''UPDATE t SET x = 5'' [] world0) =
     Some (errors_New
       ''number of rows affected does not match the expected number of rows affected: 0 / 1'')
   \<and> fst (EphmrlUpdateSingleRow (stub_driver (affects 0)) (DB_ptr 7)
          ''UPDATE t SET x = 5'' [] world0) =
     (None, Some (errors_New
       ''number of rows affected does not match the expected number of rows affected: 0 / 1''))
   \<and> fst (UpdateSingleRow (stub_driver (affects 1)) \<lparr>DB = DB_ptr 7\<rparr>
          ''UPDATE t SET x = 5'' [] world0) = None"
  using update_succeeds_iff_one_row [of "Result (Inr 0)" 0 "stub_driver (affects 0)"
          "\<lparr>DB = DB_ptr 7\<rparr>" "''UPDATE t SET x = 5''" world0 "Stmt_ptr 0" 1 "[]" 2
          "DB_ptr 7" 1]
        update_succeeds_iff_one_row [of "Result (Inr 1)" 1 "stub_driver (affects 1)"
          "\<lparr>DB = DB_ptr 7\<rparr>" "''UPDATE t SET x = 5''" world0 "Stmt_ptr 0" 1 "[]" 2
          "DB_ptr 7" 1]
  by (simp add: stub_defs fmt_v_def decimal.simps mismatch_text_def)

section \<open>Empty queries and missing arguments\<close>

text \<open>
  Claim C2, at the input where the code departs from it. The connection-bound
  \<^verbatim>\<open>UpdateSingleRow\<close> calls no validation helper: with the empty query and one argument it
  prepares the empty statement, executes it and, the driver reporting one row, returns
  success. (Every other operation rejects the empty query: \<open>empty_query_rejected\<close>.)
\<close>

theorem UpdateSingleRow_runs_empty_query:
  "fst (UpdateSingleRow (stub_driver (affects 1)) \<lparr>DB = DB_ptr 7\<rparr> [] [Int_any 5] world0)
     = None
   \<and> calls (snd (UpdateSingleRow (stub_driver (affects 1)) \<lparr>DB = DB_ptr 7\<rparr> []
                    [Int_any 5] world0))
     = [Call_Prepare (DB_ptr 7) [], Call_Stmt_Exec (Stmt_ptr 0) [Int_any 5]]"
  by (simp add: UpdateSingleRow_def call_defs stub_defs GetRowsAffected_def log_Print_def)

text \<open>
  Claim C3, at the input where the code departs from it. Each with-args operation hands its
  argument slice to \<^verbatim>\<open>QueryCheckerWithArgs\<close> as one value, so the helper never sees an empty
  list (\<open>unspread_args_pass\<close>): called with a non-empty query and zero arguments, all five
  operations run the query and return a cursor or a result with no error.
\<close>

theorem with_args_accepts_zero_arguments:
  "fst (SingleRowScannerWithArgs (stub_driver (affects 1)) \<lparr>DB = DB_ptr 7\<rparr>
          ''SELECT 1'' [] world0)
     = (Some (Row_ptr 0), None)
   \<and> fst (MultipleRowScannerWithArgs (stub_driver (affects 1)) \<lparr>DB = DB_ptr 7\<rparr>
          ''SELECT 1'' [] world0)
     = (Some (Rows_ptr 0), None)
   \<and> fst (EphmrlSingleRowScannerWithArgs (stub_driver (affects 1)) (DB_ptr 7)
          ''SELECT 1'' [] world0)
     = (Some (Row_ptr 0), None)
   \<and> fst (EphmrlMultipleRowScannerWithArgs (stub_driver (affects 1)) (DB_ptr 7)
          ''SELECT 1'' [] world0)
     = (Some (Rows_ptr 0), None)
   \<and> fst (EphmrlUpdateSingleRow (stub_driver (affects 1)) (DB_ptr 7) ''SELECT 1'' [] world0)
     = (Some (Result (Inr 1)), None)"
  by (simp add: SingleRowScannerWithArgs_def MultipleRowScannerWithArgs_def
        EphmrlSingleRowScannerWithArgs_def EphmrlMultipleRowScannerWithArgs_def
        EphmrlUpdateSingleRow_def QueryCheckerWithArgs_def call_defs stub_defs
        GetRowsAffected_def log_Print_def)

text \<open>
  Claim C4, at the input where the code departs from it. \<^verbatim>\<open>MultipleRowScanner\<close> takes no
  arguments, yet it validates with \<^verbatim>\<open>QueryCheckerWithArgs(query)\<close>: on a non-empty query
  it returns the missing-arguments error and never reaches the driver. (The other three
  no-argument operations do proceed: \<open>no_args_operations_proceed\<close>.)
\<close>

theorem MultipleRowScanner_rejects_every_query:
  "fst (MultipleRowScanner (stub_driver (affects 1)) \<lparr>DB = DB_ptr 7\<rparr> ''SELECT 1'' world0)
     = (None, Some (errors_New ''no args present''))
   \<and> calls (snd (MultipleRowScanner (stub_driver (affects 1)) \<lparr>DB = DB_ptr 7\<rparr>
                    ''SELECT 1'' world0)) = []"
  by (simp add: MultipleRowScanner_def QueryCheckerWithArgs_def stub_defs)

section \<open>Propagation of failures\<close>

text \<open>
  Claim C5, at the inputs where the code departs from it. The earlier
  \<^verbatim>\<open>AssisterConfig.UpdateSingleRow\<close> overwrites the error of \<^verbatim>\<open>stmt.Exec\<close>: when the
  driver fails the execute, the error is neither returned nor logged and the call panics on
  the \<^verbatim>\<open>nil\<close> result, where the current \<^verbatim>\<open>Assister.UpdateSingleRow\<close> returns the driver's
  error. \<^verbatim>\<open>ScanStruct\<close> only logs the error of the inner scan and goes on to the
  \<^verbatim>\<open>nil\<close> row.
\<close>

theorem errors_discarded:
  "Stmt_Exec (stub_driver (Inl ''duplicate key'')) (Stmt_ptr 0) [] 1 = (Inl ''duplicate key'', 2)
   \<and> fst (AssisterConfig_UpdateSingleRow (stub_driver (Inl ''duplicate key''))
          \<lparr>DB = DB_ptr 7\<rparr> ''UPDATE t SET x = 5'' [] world0) = Panics nil_dereference
   \<and> calls (snd (AssisterConfig_UpdateSingleRow (stub_driver (Inl ''duplicate key''))
          \<lparr>DB = DB_ptr 7\<rparr> ''UPDATE t SET x = 5'' [] world0))
       = [Call_Prepare (DB_ptr 7) ''UPDATE t SET x = 5'', Call_Stmt_Exec (Stmt_ptr 0) []]
   \<and> logged (snd (AssisterConfig_UpdateSingleRow (stub_driver (Inl ''duplicate key''))
          \<lparr>DB = DB_ptr 7\<rparr> ''UPDATE t SET x = 5'' [] world0))
       = [''Query: UPDATE t SET x = 5'']
   \<and> fst (UpdateSingleRow (stub_driver (Inl ''duplicate key''))
          \<lparr>DB = DB_ptr 7\<rparr> ''UPDATE t SET x = 5'' [] world0)
       = Some (driver_error ''duplicate key'')
   \<and> fst (ScanStruct (stub_driver (affects 1)) 0 (Struct_any [(''ID'', String_any [])])
          (snd (New (DB_ptr 7) world0))) = Panics nil_dereference
   \<and> logged (snd (ScanStruct (stub_driver (affects 1)) 0 (Struct_any [(''ID'', String_any [])])
          (snd (New (DB_ptr 7) world0)))) = [''no query / statement present'']"
  by (simp add: AssisterConfig_UpdateSingleRow_def UpdateSingleRow_def getRowsAffected_def
        call_defs stub_defs log_Print_def ScanStruct_def NumField_def New_def
        ScanStruct_loop_panics)

section \<open>The two layers compared\<close>




section \<open>The stored handle\<close>

text \<open>
  Claim C8. \<^verbatim>\<open>New(db)\<close> stores \<open>db\<close> in the executor it allocates. No call of update,
  scan-one or scan-many (nor of \<^verbatim>\<open>ScanStruct\<close>) changes any executor on the heap, so the
  stored handle stays \<open>db\<close>; and none of them adds a \<^verbatim>\<open>Close\<close> to the calls made on a
  handle.
\<close>

theorem stored_handle_unchanged:
  "map_option DB (assisters (snd (New db w)) (fst (New db w))) = Some db
   \<and> assisters (snd (UpdateSingleRow drv ac query args w)) = assisters w
   \<and> assisters (snd (SingleRowScanner drv ac query w)) = assisters w
   \<and> assisters (snd (SingleRowScannerWithArgs drv ac query args w)) = assisters w
   \<and> assisters (snd (MultipleRowScanner drv ac query w)) = assisters w
   \<and> assisters (snd (MultipleRowScannerWithArgs drv ac query args w)) = assisters w
   \<and> assisters (snd (ScanStruct drv p arg w)) = assisters w
   \<and> (Call_Close h \<in> set (calls (snd (UpdateSingleRow drv ac query args w))))
       = (Call_Close h \<in> set (calls w))
   \<and> (Call_Close h \<in> set (calls (snd (SingleRowScanner drv ac query w))))
       = (Call_Close h \<in> set (calls w))
   \<and> (Call_Close h \<in> set (calls (snd (SingleRowScannerWithArgs drv ac query args w))))
       = (Call_Close h \<in> set (calls w))
   \<and> (Call_Close h \<in> set (calls (snd (MultipleRowScanner drv ac query w))))
       = (Call_Close h \<in> set (calls w))
   \<and> (Call_Close h \<in> set (calls (snd (MultipleRowScannerWithArgs drv ac query args w))))
       = (Call_Close h \<in> set (calls w))
   \<and> (Call_Close h \<in> set (calls (snd (ScanStruct drv p arg w))))
       = (Call_Close h \<in> set (calls w))"
  by (simp add: bound_assisters_frame bound_never_closes ScanStruct_frame New_def Let_def)

section \<open>The struct scanner dereferences a nil row\<close>

text \<open>
  Claim C9. On a live executor, the inner call \<^verbatim>\<open>ac.SingleRowScannerWithArgs("")\<close> returns
  the \<^verbatim>\<open>nil\<close> row with the missing-query error, whatever the world. Hence every iteration
  of the loop of \<^verbatim>\<open>ScanStruct\<close>, and so \<^verbatim>\<open>ScanStruct\<close> on every struct with at least one
  field, writes that error to the log and nothing else, and then panics with a nil
  dereference in \<^verbatim>\<open>row.Scan\<close>.
\<close>

theorem ScanStruct_dereferences_nil_row:
  assumes "assisters w ac = Some a"
  shows "SingleRowScannerWithArgs drv a [] [] w =
           ((None, Some (errors_New ''no query / statement present'')), w)
       \<and> (\<forall>i < numOfFields. ScanStruct_loop drv ac vals numOfFields i w =
           (Panics nil_dereference, log_Print ''no query / statement present'' w))
       \<and> ScanStruct drv ac (Struct_any (f # fs)) w =
           (Panics nil_dereference, log_Print ''no query / statement present'' w)"
  using assms
  by (simp add: ScanStruct_loop_panics ScanStruct_def NumField_def empty_query_rejected)

theorem ScanStruct_dereferences_nil_row_witness:
  "fst (ScanStruct (stub_driver (affects 1)) 0
          (Struct_any [(''ID'', String_any []), (''Name'', String_any [])])
          (snd (New (DB_ptr 7) world0))) = Panics nil_dereference
   \<and> logged (snd (ScanStruct (stub_driver (affects 1)) 0
          (Struct_any [(''ID'', String_any []), (''Name'', String_any [])])
          (snd (New (DB_ptr 7) world0)))) = [''no query / statement present'']
   \<and> calls (snd (ScanStruct (stub_driver (affects 1)) 0
          (Struct_any [(''ID'', String_any []), (''Name'', String_any [])])
          (snd (New (DB_ptr 7) world0)))) = []"
  using ScanStruct_dereferences_nil_row [of "snd (New (DB_ptr 7) world0)" 0
          "\<lparr>DB = DB_ptr 7\<rparr>" "stub_driver (affects 1)" 0 _ "(''ID'', String_any [])"
          "[(''Name'', String_any [])]"]
  by (simp add: New_def world0_def log_Print_def)

section \<open>Validation errors come before any driver call\<close>

text \<open>
  Claim C10. If an operation returns one of the validation errors, the world after the call
  is the world before it: no call was made to \<^verbatim>\<open>database/sql\<close> and the database state is
  the same. This holds for the four scans of each layer and for the ephemeral update; the
  connection-bound update never returns a validation error.
\<close>

theorem validation_error_before_driver:
  assumes "err \<in> validation_errors"
  shows "(snd (fst (SingleRowScanner drv ac query w)) = Some err
            \<longrightarrow> snd (SingleRowScanner drv ac query w) = w)
       \<and> (snd (fst (SingleRowScannerWithArgs drv ac query args w)) = Some err
            \<longrightarrow> snd (SingleRowScannerWithArgs drv ac query args w) = w)
       \<and> (snd (fst (MultipleRowScanner drv ac query w)) = Some err
            \<longrightarrow> snd (MultipleRowScanner drv ac query w) = w)
       \<and> (snd (fst (MultipleRowScannerWithArgs drv ac query args w)) = Some err
            \<longrightarrow> snd (MultipleRowScannerWithArgs drv ac query args w) = w)
       \<and> (snd (fst (EphmrlUpdateSingleRow drv db query args w)) = Some err
            \<longrightarrow> snd (EphmrlUpdateSingleRow drv db query args w) = w)
       \<and> (snd (fst (EphmrlSingleRowScanner drv db query w)) = Some err
            \<longrightarrow> snd (EphmrlSingleRowScanner drv db query w) = w)
       \<and> (snd (fst (EphmrlSingleRowScannerWithArgs drv db query args w)) = Some err
            \<longrightarrow> snd (EphmrlSingleRowScannerWithArgs drv db query args w) = w)
       \<and> (snd (fst (EphmrlMultipleRowScanner drv db query w)) = Some err
            \<longrightarrow> snd (EphmrlMultipleRowScanner drv db query w) = w)
       \<and> (snd (fst (EphmrlMultipleRowScannerWithArgs drv db query args w)) = Some err
            \<longrightarrow> snd (EphmrlMultipleRowScannerWithArgs drv db query args w) = w)
       \<and> fst (UpdateSingleRow drv ac query args w) \<noteq> Some err"
  by (intro conjI impI;
      (erule scan_validation_untouched [OF assms] EphmrlUpdate_validation_untouched [OF assms]
       | rule UpdateSingleRow_no_validation [OF assms]))

theorem validation_error_before_driver_witness:
  "errors_New ''no query / statement present'' \<in> validation_errors
   \<and> errors_New ''no args present'' \<in> validation_errors
   \<and> snd (fst (SingleRowScanner (stub_driver (affects 1)) \<lparr>DB = DB_ptr 7\<rparr> [] world0))
       = Some (errors_New ''no query / statement present'')
   \<and> calls (snd (SingleRowScanner (stub_driver (affects 1)) \<lparr>DB = DB_ptr 7\<rparr> [] world0))
       = []
   \<and> dbstate (snd (SingleRowScanner (stub_driver (affects 1)) \<lparr>DB = DB_ptr 7\<rparr> [] world0))
       = 0
   \<and> snd (fst (EphmrlUpdateSingleRow (stub_driver (affects 1)) (DB_ptr 7) [] [Int_any 5]
                 world0))
       = Some (errors_New ''no query / statement present'')
   \<and> calls (snd (EphmrlUpdateSingleRow (stub_driver (affects 1)) (DB_ptr 7) [] [Int_any 5]
                    world0)) = []
   \<and> snd (fst (MultipleRowScanner (stub_driver (affects 1)) \<lparr>DB = DB_ptr 7\<rparr> ''SELECT 1''
                 world0))
       = Some (errors_New ''no args present'')
   \<and> calls (snd (MultipleRowScanner (stub_driver (affects 1)) \<lparr>DB = DB_ptr 7\<rparr> ''SELECT 1''
                    world0)) = []"
  using validation_error_before_driver [of "errors_New ''no query / statement present''"
          "stub_driver (affects 1)" "\<lparr>DB = DB_ptr 7\<rparr>" "[]" world0 "[Int_any 5]" "DB_ptr 7"]
        validation_error_before_driver [of "errors_New ''no args present''"
          "stub_driver (affects 1)" "\<lparr>DB = DB_ptr 7\<rparr>" "''SELECT 1''" world0 "[]" "DB_ptr 7"]
  by (simp add: validation_errors_def SingleRowScanner_def EphmrlUpdateSingleRow_def
        MultipleRowScanner_def QueryChecker_def QueryCheckerWithArgs_def world0_def)

end
